theory Spec2Isabelle
  imports Complex_Main
begin

section \<open>Data model\<close>

text \<open>
  The backend keeps its data in MongoDB collections accessed through Mongoose models.
  A collection is modelled as the list of its documents in insertion order, an
  \<open>ObjectId\<close> as a natural number, a \<open>Date\<close> as an integer (milliseconds), and a
  JavaScript \<open>Number\<close> as an exact rational. The records hold the paths of the schemas
  that the controllers and hooks below read, write or validate. The schemas are strict:
  a path that a schema does not declare (\<open>cancelledAt\<close> and \<open>completedAt\<close> of a booking,
  \<open>isApproved\<close> of a review, \<open>ratingCount\<close> of a store or an offer) is dropped from
  every document and every update that Mongoose writes. The field \<open>ratingCount\<close> of the
  two records is such a path: no operation below writes it.
\<close>

type_synonym oid = nat
type_synonym date = int

datatype status = pending | confirmed | completed | cancelled | expired | rejected

record offer =
  o_id :: oid
  o_originalPrice :: rat
  o_discountedPrice :: rat
  o_quantity :: rat
  o_availableQuantity :: rat
  o_pickupStart :: date
  o_pickupEnd :: date
  o_seller :: oid
  o_store :: oid
  o_isActive :: bool
  o_rating :: "rat option"
  o_ratingCount :: "nat option"

record booking =
  b_id :: oid
  b_offer :: oid
  b_user :: oid
  b_seller :: oid
  b_quantity :: rat
  b_totalPrice :: rat
  b_status :: status
  b_pickupCode :: string
  b_pickupTime :: date
  b_rating :: "rat option"
  b_review :: "string option"
  b_cancellationReason :: "string option"
  b_cancelledBy :: "string option"
  b_paymentStatus :: string
  b_paymentMethod :: string

record store =
  s_id :: oid
  s_owner :: oid
  s_rating :: "rat option"
  s_ratingCount :: "nat option"

record review =
  rv_id :: oid
  rv_user :: oid
  rv_store :: oid
  rv_offer :: oid
  rv_rating :: rat
  rv_isDeleted :: bool

record notification =
  n_user :: oid
  n_type :: string
  n_entityType :: string
  n_entityId :: oid

text \<open>
  The database: the ids of the documents of the User collection (the User model is not
  among the sources; only the existence of a referenced user matters below), the five
  collections, and the next fresh \<open>ObjectId\<close>.
\<close>

record db =
  users :: "oid list"
  offers :: "offer list"
  bookings :: "booking list"
  stores :: "store list"
  reviews :: "review list"
  notifications :: "notification list"
  nextId :: oid

text \<open>\<open>req.user\<close>, as the authentication middleware sets it.\<close>

record user =
  u_id :: oid
  u_role :: string

text \<open>
  A controller ends with \<open>next(new ErrorResponse(message, statusCode))\<close>, with a Mongoose
  validation error that \<open>asyncHandler\<close> passes on (it lists every failing path, here in
  the order of the schema), with a \<open>TypeError\<close> thrown by a property access on \<open>null\<close>
  and passed on in the same way, or with \<open>res.status(code).json(...)\<close>. Interpolated ids
  are left out of the messages.
\<close>

datatype error = ErrorResponse string nat | ValidationError "string list" | TypeError

section \<open>Mongoose operations\<close>

definition findById :: "('a \<Rightarrow> oid) \<Rightarrow> oid \<Rightarrow> 'a list \<Rightarrow> 'a option" where
  "findById ident i xs = find (\<lambda>x. ident x = i) xs"

text \<open>\<open>findOneAndUpdate\<close> and \<open>updateOne\<close> change the first matching document only.\<close>

fun updateOne :: "('a \<Rightarrow> bool) \<Rightarrow> ('a \<Rightarrow> 'a) \<Rightarrow> 'a list \<Rightarrow> 'a list" where
  "updateOne P f [] = []"
| "updateOne P f (x # xs) = (if P x then f x # xs else x # updateOne P f xs)"

definition updateMany :: "('a \<Rightarrow> bool) \<Rightarrow> ('a \<Rightarrow> 'a) \<Rightarrow> 'a list \<Rightarrow> 'a list" where
  "updateMany P f xs = map (\<lambda>x. if P x then f x else x) xs"

definition deleteMany :: "('a \<Rightarrow> bool) \<Rightarrow> 'a list \<Rightarrow> 'a list" where
  "deleteMany P xs = filter (\<lambda>x. \<not> P x) xs"

definition Notification_create :: "notification \<Rightarrow> db \<Rightarrow> db" where
  "Notification_create n st = st\<lparr>notifications := notifications st @ [n]\<rparr>"

text \<open>JavaScript truthiness of an optional number and of an optional string.\<close>

definition truthy :: "rat option \<Rightarrow> bool" where
  "truthy v = (case v of None \<Rightarrow> False | Some x \<Rightarrow> x \<noteq> 0)"

definition truthyStr :: "string option \<Rightarrow> bool" where
  "truthyStr v = (case v of None \<Rightarrow> False | Some s \<Rightarrow> s \<noteq> [])"

text \<open>The aggregation operator \<open>$avg\<close> over a non-empty group.\<close>

definition avg :: "rat list \<Rightarrow> rat" where
  "avg xs = sum_list xs / of_nat (length xs)"

text \<open>
  The strings that the authorization checks compare. \<open>toString()\<close> of an \<open>ObjectId\<close> is
  its hexadecimal string, and \<open>req.user.id\<close> is that string for the authenticated user.
  \<open>toString()\<close> of a document is the text of the whole document as \<open>inspect\<close> prints it,
  which is never the hexadecimal string of an id.
\<close>

datatype jsstring = ObjectIdString oid | DocumentString oid

definition reqUserId :: "user \<Rightarrow> jsstring" where
  "reqUserId usr = ObjectIdString (u_id usr)"

text \<open>
  \<open>bookingSchema.pre(/^find/, populateReferences)\<close> and \<open>reviewSchema.pre(/^find/, ...)\<close>
  populate the references of every document that a \<open>find\<close>, \<open>findOne\<close> or \<open>findById\<close>
  returns: the path then holds the referenced document, or \<open>null\<close> when no such document
  exists. So \<open>booking.user.toString()\<close> on a booking that a query has loaded is the string
  of a document, and throws a \<open>TypeError\<close> when the user does not exist.
\<close>

definition populated :: "oid list \<Rightarrow> oid \<Rightarrow> oid option" where
  "populated coll ref = (if ref \<in> set coll then Some ref else None)"

definition toStringPopulated :: "oid list \<Rightarrow> oid \<Rightarrow> error + jsstring" where
  "toStringPopulated coll ref =
     (case populated coll ref of None \<Rightarrow> Inl TypeError | Some doc \<Rightarrow> Inr (DocumentString doc))"

section \<open>Pickup codes (generatePickupCode of the Booking model)\<close>

text \<open>
  \<open>characters.charAt(i)\<close> is the one-character string at index \<open>i\<close>, and the empty
  string when \<open>i\<close> is out of range.
\<close>

definition characters :: string where
  "characters = ''ABCDEFGHJKLMNPQRSTUVWXYZ23456789''"

definition charAt :: "string \<Rightarrow> nat \<Rightarrow> string" where
  "charAt s i = (if i < length s then [s ! i] else [])"

text \<open>
  The inner \<open>for\<close> loop appends six characters to \<open>code\<close>, one per call of
  \<open>Math.random\<close>. The list \<open>draws\<close> holds the successive values of
  \<open>Math.floor(Math.random() * characters.length)\<close>.
\<close>

definition sixChars :: "nat list \<Rightarrow> string" where
  "sixChars draws = foldl (\<lambda>code d. code @ charAt characters d) [] (take 6 draws)"

text \<open>
  The \<open>while (!isUnique)\<close> loop: each round consumes six draws, looks the code up among
  the existing bookings and starts again with an empty code when it is taken. The loop
  has no bound in the source; the finite list of draws is its fuel, and \<open>None\<close> says
  that the loop has not returned within these draws.
\<close>

function generatePickupCode :: "nat list \<Rightarrow> booking list \<Rightarrow> string option" where
  "generatePickupCode draws bs =
     (if length draws < 6 then None
      else (case find (\<lambda>b. b_pickupCode b = sixChars draws) bs of
              None \<Rightarrow> Some (sixChars draws)
            | Some existingBooking \<Rightarrow> generatePickupCode (drop 6 draws) bs))"
  by pat_completeness auto
termination
  by (relation "measure (\<lambda>(draws, bs). length draws)") auto

declare generatePickupCode.simps [simp del]

section \<open>The Booking model (models/Booking.js)\<close>

text \<open>The enum of the \<open>status\<close> path: a string outside it fails validation.\<close>

definition status_of_string :: "string \<Rightarrow> status option" where
  "status_of_string s =
     (if s = ''pending'' then Some pending
      else if s = ''confirmed'' then Some confirmed
      else if s = ''completed'' then Some completed
      else if s = ''cancelled'' then Some cancelled
      else if s = ''expired'' then Some expired
      else if s = ''rejected'' then Some rejected
      else None)"

text \<open>
  The validators of \<open>bookingSchema\<close>, each giving the failing path or nothing:
  \<open>quantity\<close> is required with \<open>min: 1\<close>, \<open>status\<close> has its enum, \<open>pickupCode\<close> is
  required (an empty string does not count), \<open>rating\<close> has \<open>min: 1\<close> and \<open>max: 5\<close>,
  \<open>review\<close> has \<open>maxlength: 500\<close>, and \<open>cancelledBy\<close>, \<open>paymentStatus\<close> and
  \<open>paymentMethod\<close> have enums. The other required paths (\<open>offer\<close>, \<open>user\<close>, \<open>seller\<close>,
  \<open>totalPrice\<close>, \<open>pickupTime\<close>) are set by the controller from documents that have them.
\<close>

definition cancelledBy_enum :: "string list" where
  "cancelledBy_enum = [''user'', ''seller'', ''system'']"

definition paymentStatus_enum :: "string list" where
  "paymentStatus_enum = [''pending'', ''completed'', ''refunded'', ''failed'']"

definition paymentMethod_enum :: "string list" where
  "paymentMethod_enum = [''cash'', ''card'', ''wallet'', ''other'']"

definition quantity_errors :: "rat option \<Rightarrow> string list" where
  "quantity_errors v =
     (case v of None \<Rightarrow> [''quantity''] | Some q \<Rightarrow> if q < 1 then [''quantity''] else [])"

definition status_errors :: "string option \<Rightarrow> string list" where
  "status_errors v =
     (case v of None \<Rightarrow> []
      | Some s \<Rightarrow> if status_of_string s = None then [''status''] else [])"

definition pickupCode_errors :: "string \<Rightarrow> string list" where
  "pickupCode_errors c = (if c = [] then [''pickupCode''] else [])"

definition rating_errors :: "rat option \<Rightarrow> string list" where
  "rating_errors v =
     (case v of None \<Rightarrow> [] | Some r \<Rightarrow> if r < 1 \<or> 5 < r then [''rating''] else [])"

definition review_errors :: "string option \<Rightarrow> string list" where
  "review_errors v =
     (case v of None \<Rightarrow> [] | Some t \<Rightarrow> if 500 < length t then [''review''] else [])"

definition enum_errors :: "string \<Rightarrow> string list \<Rightarrow> string option \<Rightarrow> string list" where
  "enum_errors path enum v =
     (case v of None \<Rightarrow> [] | Some s \<Rightarrow> if s \<in> set enum then [] else [path])"

text \<open>Validation of a booking document, as \<open>save()\<close> runs it.\<close>

definition booking_errors :: "booking \<Rightarrow> string list" where
  "booking_errors b =
     quantity_errors (Some (b_quantity b)) @
     pickupCode_errors (b_pickupCode b) @
     rating_errors (b_rating b) @
     review_errors (b_review b) @
     enum_errors ''cancelledBy'' cancelledBy_enum (b_cancelledBy b) @
     enum_errors ''paymentStatus'' paymentStatus_enum (Some (b_paymentStatus b)) @
     enum_errors ''paymentMethod'' paymentMethod_enum (Some (b_paymentMethod b))"

text \<open>\<open>Offer.findByIdAndUpdate(id, { $inc: { availableQuantity: d } })\<close>.\<close>

definition incAvailableQuantity :: "oid \<Rightarrow> rat \<Rightarrow> offer list \<Rightarrow> offer list" where
  "incAvailableQuantity i d os =
     updateOne (\<lambda>x. o_id x = i) (\<lambda>x. x\<lparr>o_availableQuantity := o_availableQuantity x + d\<rparr>) os"

text \<open>
  \<open>bookingSchema.pre('save')\<close>: a new booking takes its quantity from the offer; a
  booking whose \<open>status\<close> path is modified and is \<open>cancelled\<close> gives it back.
\<close>

definition booking_pre_save :: "bool \<Rightarrow> bool \<Rightarrow> booking \<Rightarrow> db \<Rightarrow> db" where
  "booking_pre_save isNew statusModified this st =
     (let st1 = (if isNew
                 then st\<lparr>offers := incAvailableQuantity (b_offer this) (- b_quantity this) (offers st)\<rparr>
                 else st)
      in if statusModified \<and> b_status this = cancelled
         then st1\<lparr>offers := incAvailableQuantity (b_offer this) (b_quantity this) (offers st1)\<rparr>
         else st1)"

text \<open>
  \<open>Offer.getAverageRating\<close> (models/Offer.js) called with the id of an offer: the
  average of the positive ratings of the offer's bookings, or 0 when there is none,
  written with \<open>findByIdAndUpdate\<close>.
\<close>

definition Offer_getAverageRating :: "oid \<Rightarrow> db \<Rightarrow> db" where
  "Offer_getAverageRating offerId st =
     (let ratings = filter (\<lambda>r. 0 < r)
            (List.map_filter b_rating (filter (\<lambda>b. b_offer b = offerId) (bookings st)))
      in st\<lparr>offers := updateOne (\<lambda>x. o_id x = offerId)
            (\<lambda>x. x\<lparr>o_rating := Some (if ratings = [] then 0 else avg ratings)\<rparr>) (offers st)\<rparr>)"

text \<open>
  \<open>bookingSchema.post('save')\<close> on a document that \<open>Booking.create\<close> has built: its
  \<open>offer\<close> path holds an id.
\<close>

definition booking_post_save :: "booking \<Rightarrow> db \<Rightarrow> db" where
  "booking_post_save doc st =
     (if b_status doc = completed \<and> truthy (b_rating doc)
      then Offer_getAverageRating (b_offer doc) st else st)"

text \<open>
  The same hook on a document that a query has loaded: its \<open>offer\<close> path holds the
  populated offer, the \<open>$match\<close> of the aggregation compares \<open>_id\<close> with a document and
  selects nothing, and \<open>findByIdAndUpdate\<close>, which casts the document to its id, writes
  the rating 0.
\<close>

definition booking_post_save_loaded :: "booking \<Rightarrow> db \<Rightarrow> db" where
  "booking_post_save_loaded doc st =
     (if b_status doc = completed \<and> truthy (b_rating doc)
      then st\<lparr>offers := updateOne (\<lambda>x. o_id x = b_offer doc)
                (\<lambda>x. x\<lparr>o_rating := Some 0\<rparr>) (offers st)\<rparr>
      else st)"

text \<open>
  \<open>req.body\<close> of \<open>POST /offers/:offerId/bookings\<close>, passed whole to \<open>Booking.create\<close>:
  the paths of the schema that a client may send and that a validator or a hook reads.
  The controller overwrites \<open>offer\<close>, \<open>user\<close>, \<open>seller\<close>, \<open>totalPrice\<close>, \<open>pickupCode\<close>
  and \<open>pickupTime\<close>. Each value has the type of its path; a value that cannot be cast
  to it is not a value of the model.
\<close>

record booking_body =
  bb_quantity :: "rat option"
  bb_status :: "string option"
  bb_rating :: "rat option"
  bb_review :: "string option"
  bb_cancellationReason :: "string option"
  bb_cancelledBy :: "string option"
  bb_paymentStatus :: "string option"
  bb_paymentMethod :: "string option"

definition create_errors :: "booking_body \<Rightarrow> string \<Rightarrow> string list" where
  "create_errors body pickupCode =
     quantity_errors (bb_quantity body) @
     status_errors (bb_status body) @
     pickupCode_errors pickupCode @
     rating_errors (bb_rating body) @
     review_errors (bb_review body) @
     enum_errors ''cancelledBy'' cancelledBy_enum (bb_cancelledBy body) @
     enum_errors ''paymentStatus'' paymentStatus_enum (bb_paymentStatus body) @
     enum_errors ''paymentMethod'' paymentMethod_enum (bb_paymentMethod body)"

text \<open>
  \<open>Booking.create(req.body)\<close>: the document is built (\<open>status\<close> defaults to
  \<open>pending\<close>, \<open>paymentStatus\<close> to \<open>pending\<close>, \<open>paymentMethod\<close> to \<open>cash\<close>),
  validated, passed to the pre-save hook, inserted, and passed to the post-save hook.
  Validation runs before the hooks, so a rejected document changes nothing. A path set
  by the constructor counts as modified, a defaulted one does not. The two inner
  \<open>None\<close> branches are not reached: \<open>create_errors\<close> is not empty there.
\<close>

definition Booking_create ::
  "booking_body \<Rightarrow> oid \<Rightarrow> oid \<Rightarrow> oid \<Rightarrow> rat \<Rightarrow> string \<Rightarrow> date \<Rightarrow> db \<Rightarrow> error + booking \<times> db" where
  "Booking_create body offerId userId sellerId totalPrice pickupCode pickupTime st =
     (if create_errors body pickupCode \<noteq> []
      then Inl (ValidationError (create_errors body pickupCode))
      else (case bb_quantity body of
        None \<Rightarrow> Inl (ValidationError (create_errors body pickupCode))
      | Some q \<Rightarrow>
          (case (case bb_status body of None \<Rightarrow> Some pending | Some s \<Rightarrow> status_of_string s) of
             None \<Rightarrow> Inl (ValidationError (create_errors body pickupCode))
           | Some sts \<Rightarrow>
               (let doc = \<lparr>b_id = nextId st, b_offer = offerId, b_user = userId,
                           b_seller = sellerId, b_quantity = q, b_totalPrice = totalPrice,
                           b_status = sts, b_pickupCode = pickupCode, b_pickupTime = pickupTime,
                           b_rating = bb_rating body, b_review = bb_review body,
                           b_cancellationReason = bb_cancellationReason body,
                           b_cancelledBy = bb_cancelledBy body,
                           b_paymentStatus =
                             (case bb_paymentStatus body of None \<Rightarrow> ''pending'' | Some p \<Rightarrow> p),
                           b_paymentMethod =
                             (case bb_paymentMethod body of None \<Rightarrow> ''cash'' | Some p \<Rightarrow> p)\<rparr>;
                    st1 = booking_pre_save True (bb_status body \<noteq> None) doc st;
                    st2 = st1\<lparr>bookings := bookings st1 @ [doc], nextId := Suc (nextId st1)\<rparr>
                in Inr (doc, booking_post_save doc st2)))))"

text \<open>
  \<open>booking.save()\<close> on a document that a query has loaded: validation, pre-save hook,
  write, post-save hook.
\<close>

definition Booking_save :: "bool \<Rightarrow> booking \<Rightarrow> db \<Rightarrow> error + db" where
  "Booking_save statusModified doc st =
     (if booking_errors doc \<noteq> [] then Inl (ValidationError (booking_errors doc))
      else (let st1 = booking_pre_save False statusModified doc st;
                st2 = st1\<lparr>bookings := updateOne (\<lambda>b. b_id b = b_id doc) (\<lambda>b. doc) (bookings st1)\<rparr>
            in Inr (booking_post_save_loaded doc st2)))"

text \<open>
  \<open>updateObj\<close> of \<open>updateBooking\<close>, and \<open>Booking.findByIdAndUpdate(id, updateObj,
  {new: true, runValidators: true})\<close>: the update validators check the paths that are
  set, no \<open>save\<close> middleware runs, and the updated document (or \<open>null\<close>) is returned.
  \<open>cancelledAt\<close> and \<open>completedAt\<close> are not paths of the schema and are not written.
\<close>

record booking_update =
  up_status :: "string option"
  up_cancelledAt :: "date option"
  up_cancelledBy :: "string option"
  up_cancellationReason :: "string option"
  up_completedAt :: "date option"

definition emptyUpdate :: booking_update where
  "emptyUpdate = \<lparr>up_status = None, up_cancelledAt = None, up_cancelledBy = None,
     up_cancellationReason = None, up_completedAt = None\<rparr>"

definition setField :: "'a option \<Rightarrow> 'a option \<Rightarrow> 'a option" where
  "setField new old = (case new of None \<Rightarrow> old | Some v \<Rightarrow> Some v)"

definition update_errors :: "booking_update \<Rightarrow> string list" where
  "update_errors upd =
     status_errors (up_status upd) @
     enum_errors ''cancelledBy'' cancelledBy_enum (up_cancelledBy upd)"

definition applyUpdate :: "booking_update \<Rightarrow> booking \<Rightarrow> booking" where
  "applyUpdate upd b =
     b\<lparr>b_status := (case up_status upd of None \<Rightarrow> b_status b
                     | Some s \<Rightarrow> (case status_of_string s of None \<Rightarrow> b_status b
                                  | Some new \<Rightarrow> new)),
       b_cancelledBy := setField (up_cancelledBy upd) (b_cancelledBy b),
       b_cancellationReason := setField (up_cancellationReason upd) (b_cancellationReason b)\<rparr>"

definition Booking_findByIdAndUpdate ::
  "oid \<Rightarrow> booking_update \<Rightarrow> db \<Rightarrow> error + booking option \<times> db" where
  "Booking_findByIdAndUpdate i upd st =
     (if update_errors upd \<noteq> [] then Inl (ValidationError (update_errors upd))
      else (let bs = updateOne (\<lambda>b. b_id b = i) (applyUpdate upd) (bookings st)
            in Inr (findById b_id i bs, st\<lparr>bookings := bs\<rparr>)))"

section \<open>The booking controller (controllers/bookingController.js)\<close>

text \<open>\<open>req.body.quantity || 1\<close>.\<close>

definition quantityOr1 :: "rat option \<Rightarrow> rat" where
  "quantityOr1 v = (case v of None \<Rightarrow> 1 | Some q \<Rightarrow> if q = 0 then 1 else q)"

text \<open>
  \<open>addBooking\<close>. \<open>now\<close> is the value of \<open>new Date()\<close>, \<open>draws\<close> feeds
  \<open>generatePickupCode\<close>; the result is \<open>None\<close> when that loop does not return. The
  offer comes from \<open>Offer.findById\<close>, which populates nothing, so \<open>offer.seller\<close> is an
  id and the comparison of the two strings is the comparison of the ids. The
  confirmation e-mail is sent inside \<open>try/catch\<close> and changes no collection.
\<close>

definition addBooking ::
  "user \<Rightarrow> oid \<Rightarrow> booking_body \<Rightarrow> date \<Rightarrow> nat list \<Rightarrow> db \<Rightarrow> ((error + nat \<times> booking) \<times> db) option" where
  "addBooking usr offerId body now draws st =
     (case findById o_id offerId (offers st) of
        None \<Rightarrow> Some (Inl (ErrorResponse ''No offer with the id'' 404), st)
      | Some offer \<Rightarrow>
          if \<not> o_isActive offer \<or> o_availableQuantity offer \<le> 0
          then Some (Inl (ErrorResponse ''This offer is no longer available'' 400), st)
          else if o_pickupEnd offer < now
          then Some (Inl (ErrorResponse ''The pickup time for this offer has passed'' 400), st)
          else if u_id usr = o_seller offer
          then Some (Inl (ErrorResponse ''You cannot book your own offer'' 400), st)
          else (case find (\<lambda>b. b_user b = u_id usr \<and> b_offer b = offerId \<and>
                               b_status b \<in> set [pending, confirmed]) (bookings st) of
                  Some existingBooking \<Rightarrow>
                    Some (Inl (ErrorResponse ''You already have a booking for this offer'' 400), st)
                | None \<Rightarrow>
                    (case generatePickupCode draws (bookings st) of
                       None \<Rightarrow> None
                     | Some pickupCode \<Rightarrow>
                         (case Booking_create body offerId (u_id usr) (o_seller offer)
                                 (o_discountedPrice offer * quantityOr1 (bb_quantity body))
                                 pickupCode (o_pickupStart offer) st of
                            Inl e \<Rightarrow> Some (Inl e, st)
                          | Inr (booking, st1) \<Rightarrow>
                              Some (Inr (201, booking),
                                    Notification_create
                                      \<lparr>n_user = o_seller offer, n_type = ''booking_created'',
                                       n_entityType = ''booking'', n_entityId = b_id booking\<rparr> st1)))))"

text \<open>
  The guard of \<open>getBooking\<close>, \<open>updateBooking\<close> and \<open>deleteBooking\<close>, on a booking that
  \<open>Booking.findById\<close> has loaded (its references are populated):
  \<open>booking.user.toString() !== req.user.id && booking.seller.toString() !== req.user.id
  && req.user.role !== 'admin'\<close>, evaluated from left to right.
\<close>

definition notAuthorized :: "db \<Rightarrow> user \<Rightarrow> booking \<Rightarrow> error + bool" where
  "notAuthorized st usr booking =
     (case toStringPopulated (users st) (b_user booking) of
        Inl e \<Rightarrow> Inl e
      | Inr userString \<Rightarrow>
          if userString \<noteq> reqUserId usr
          then (case toStringPopulated (users st) (b_seller booking) of
                  Inl e \<Rightarrow> Inl e
                | Inr sellerString \<Rightarrow>
                    Inr (sellerString \<noteq> reqUserId usr \<and> u_role usr \<noteq> ''admin''))
          else Inr False)"

text \<open>\<open>updateBooking\<close>: the table of valid transitions and the body.\<close>

definition validTransitions :: "status \<Rightarrow> string list" where
  "validTransitions s =
     (case s of
        pending \<Rightarrow> [''confirmed'', ''cancelled'']
      | confirmed \<Rightarrow> [''completed'', ''cancelled'']
      | completed \<Rightarrow> []
      | cancelled \<Rightarrow> []
      | expired \<Rightarrow> []
      | rejected \<Rightarrow> [])"

record updateBooking_body =
  ub_status :: "string option"
  ub_cancellationReason :: "string option"

text \<open>
  The block \<open>if (status === 'cancelled') { ... }\<close>: it sets \<open>cancelledAt\<close>,
  \<open>cancelledBy\<close> and the reason, and notifies the user when the requester is the seller.
\<close>

definition cancellationBlock ::
  "user \<Rightarrow> booking \<Rightarrow> updateBooking_body \<Rightarrow> date \<Rightarrow> booking_update \<Rightarrow> db
   \<Rightarrow> error + booking_update \<times> db" where
  "cancellationBlock usr booking body now upd st =
     (case (if u_role usr = ''admin'' then Inr ''admin''
            else (case toStringPopulated (users st) (b_user booking) of
                    Inl e \<Rightarrow> Inl e
                  | Inr userString \<Rightarrow>
                      Inr (if reqUserId usr = userString then ''user'' else ''seller''))) of
        Inl e \<Rightarrow> Inl e
      | Inr cancelledBy \<Rightarrow>
          (case toStringPopulated (users st) (b_seller booking) of
             Inl e \<Rightarrow> Inl e
           | Inr sellerString \<Rightarrow>
               Inr (upd\<lparr>up_cancelledAt := Some now,
                        up_cancelledBy := Some cancelledBy,
                        up_cancellationReason :=
                          (if truthyStr (ub_cancellationReason body)
                           then ub_cancellationReason body else up_cancellationReason upd)\<rparr>,
                    if reqUserId usr = sellerString
                    then Notification_create
                           \<lparr>n_user = b_user booking, n_type = ''booking_cancelled'',
                            n_entityType = ''booking'', n_entityId = b_id booking\<rparr> st
                    else st)))"

text \<open>
  The block \<open>if (status) { ... }\<close>: it fills \<open>updateObj\<close> and creates the notifications,
  or ends the request with status 400.
\<close>

definition statusBlock ::
  "user \<Rightarrow> booking \<Rightarrow> updateBooking_body \<Rightarrow> date \<Rightarrow> db \<Rightarrow> error + booking_update \<times> db" where
  "statusBlock usr booking body now st =
     (case ub_status body of
        None \<Rightarrow> Inr (emptyUpdate, st)
      | Some sts \<Rightarrow>
          if sts = [] then Inr (emptyUpdate, st)
          else if sts \<notin> set (validTransitions (b_status booking))
          then Inl (ErrorResponse ''Invalid status transition'' 400)
          else (case (if sts = ''cancelled''
                      then cancellationBlock usr booking body now
                             (emptyUpdate\<lparr>up_status := Some sts\<rparr>) st
                      else Inr (emptyUpdate\<lparr>up_status := Some sts\<rparr>, st)) of
                  Inl e \<Rightarrow> Inl e
                | Inr (upd, st1) \<Rightarrow>
                    if sts = ''completed''
                    then Inr (upd\<lparr>up_completedAt := Some now\<rparr>,
                              Notification_create
                                \<lparr>n_user = b_user booking, n_type = ''booking_completed'',
                                 n_entityType = ''booking'', n_entityId = b_id booking\<rparr> st1)
                    else Inr (upd, st1)))"

definition updateBooking ::
  "user \<Rightarrow> oid \<Rightarrow> updateBooking_body \<Rightarrow> date \<Rightarrow> db \<Rightarrow> (error + nat \<times> booking option) \<times> db" where
  "updateBooking usr i body now st =
     (case findById b_id i (bookings st) of
        None \<Rightarrow> (Inl (ErrorResponse ''No booking with the id'' 404), st)
      | Some booking \<Rightarrow>
          (case notAuthorized st usr booking of
             Inl e \<Rightarrow> (Inl e, st)
           | Inr refused \<Rightarrow>
               if refused
               then (Inl (ErrorResponse ''User is not authorized to update this booking'' 401), st)
               else (case statusBlock usr booking body now st of
                       Inl e \<Rightarrow> (Inl e, st)
                     | Inr (updateObj, st1) \<Rightarrow>
                         (case Booking_findByIdAndUpdate i updateObj st1 of
                            Inl e \<Rightarrow> (Inl e, st1)
                          | Inr (updated, st2) \<Rightarrow> (Inr (200, updated), st2)))))"

text \<open>
  \<open>completeBookingWithCode\<close>. \<open>Booking.findOne\<close> populates the references of the
  booking it returns, and the check reads \<open>booking.seller.toString() !== req.user.id\<close>.
  \<open>booking.completedAt = Date.now()\<close> sets a path that the schema does not have.
\<close>

definition completeBookingWithCode ::
  "user \<Rightarrow> string \<Rightarrow> date \<Rightarrow> db \<Rightarrow> (error + nat) \<times> db" where
  "completeBookingWithCode usr code now st =
     (case find (\<lambda>b. b_pickupCode b = code \<and> b_status b \<in> set [pending, confirmed])
             (bookings st) of
        None \<Rightarrow> (Inl (ErrorResponse ''Invalid or expired pickup code'' 404), st)
      | Some booking \<Rightarrow>
          (case toStringPopulated (users st) (b_seller booking) of
             Inl e \<Rightarrow> (Inl e, st)
           | Inr sellerString \<Rightarrow>
               if sellerString \<noteq> reqUserId usr
               then (Inl (ErrorResponse ''You are not authorized to complete this booking'' 401), st)
               else (case Booking_save True (booking\<lparr>b_status := completed\<rparr>) st of
                       Inl e \<Rightarrow> (Inl e, st)
                     | Inr st1 \<Rightarrow>
                         (Inr 200,
                          Notification_create
                            \<lparr>n_user = b_user booking, n_type = ''booking_completed'',
                             n_entityType = ''booking'', n_entityId = b_id booking\<rparr> st1))))"

section \<open>The Offer model and controller (models/Offer.js, controllers/offerController.js)\<close>

text \<open>
  Document validation of an offer, run by \<open>Offer.create\<close> and \<open>offer.save()\<close> with
  \<open>this\<close> the document: \<open>originalPrice\<close> has \<open>min: 0\<close>, \<open>discountedPrice\<close> must be
  below \<open>this.originalPrice\<close>, \<open>quantity\<close> has \<open>min: 1\<close>, \<open>pickupEnd\<close> must be after
  \<open>this.pickupStart\<close>, \<open>rating\<close> has \<open>min: 1\<close> and \<open>max: 5\<close>.
\<close>

definition offer_errors :: "offer \<Rightarrow> string list" where
  "offer_errors x =
     (if o_originalPrice x < 0 then [''originalPrice''] else []) @
     (if o_discountedPrice x < o_originalPrice x then [] else [''discountedPrice'']) @
     (if o_quantity x < 1 then [''quantity''] else []) @
     (if o_pickupStart x < o_pickupEnd x then [] else [''pickupEnd'']) @
     (case o_rating x of None \<Rightarrow> []
      | Some r \<Rightarrow> if r < 1 \<or> 5 < r then [''rating''] else [])"

text \<open>
  \<open>createOffer\<close>: the body carries the offer's fields; the controller sets \<open>seller\<close>,
  \<open>store\<close> and \<open>availableQuantity\<close>, Mongoose the \<open>_id\<close>. The rating that the
  post-save hook recomputes without being awaited is outside this sequential model.
\<close>

definition createOffer :: "user \<Rightarrow> oid \<Rightarrow> offer \<Rightarrow> db \<Rightarrow> (error + nat \<times> offer) \<times> db" where
  "createOffer usr storeId body st =
     (case find (\<lambda>s. s_id s = storeId \<and> s_owner s = u_id usr) (stores st) of
        None \<Rightarrow> (Inl (ErrorResponse ''No store found with id'' 404), st)
      | Some str \<Rightarrow>
          (let doc = body\<lparr>o_id := nextId st, o_seller := u_id usr, o_store := storeId,
                         o_availableQuantity := o_quantity body\<rparr>
           in if offer_errors doc \<noteq> [] then (Inl (ValidationError (offer_errors doc)), st)
              else (Inr (201, doc),
                    Notification_create
                      \<lparr>n_user = u_id usr, n_type = ''new_offer'', n_entityType = ''offer'',
                       n_entityId = o_id doc\<rparr>
                      (st\<lparr>offers := offers st @ [doc], nextId := Suc (nextId st)\<rparr>))))"

text \<open>
  \<open>req.body\<close> of \<open>PUT /offers/:id\<close>, and \<open>Offer.findByIdAndUpdate(id, req.body, {new:
  true, runValidators: true})\<close>. An update validator sees only the paths of the update:
  \<open>min\<close> is checked on the new value, while in the two custom validators \<open>this\<close> is not
  the document, \<open>this.originalPrice\<close> and \<open>this.pickupStart\<close> are \<open>undefined\<close>, and the
  comparison with \<open>undefined\<close> is false, so an update that sets \<open>discountedPrice\<close> or
  \<open>pickupEnd\<close> is rejected.
\<close>

record offer_update =
  ou_quantity :: "rat option"
  ou_availableQuantity :: "rat option"
  ou_originalPrice :: "rat option"
  ou_discountedPrice :: "rat option"
  ou_pickupStart :: "date option"
  ou_pickupEnd :: "date option"
  ou_isActive :: "bool option"

definition offer_update_errors :: "offer_update \<Rightarrow> string list" where
  "offer_update_errors upd =
     (case ou_originalPrice upd of None \<Rightarrow> []
      | Some p \<Rightarrow> if p < 0 then [''originalPrice''] else []) @
     (case ou_discountedPrice upd of None \<Rightarrow> [] | Some p \<Rightarrow> [''discountedPrice'']) @
     (case ou_quantity upd of None \<Rightarrow> []
      | Some q \<Rightarrow> if q < 1 then [''quantity''] else []) @
     (case ou_pickupEnd upd of None \<Rightarrow> [] | Some e \<Rightarrow> [''pickupEnd''])"

definition orElse :: "'a option \<Rightarrow> 'a \<Rightarrow> 'a" where
  "orElse new old = (case new of None \<Rightarrow> old | Some v \<Rightarrow> v)"

definition applyOfferUpdate :: "offer_update \<Rightarrow> offer \<Rightarrow> offer" where
  "applyOfferUpdate upd x =
     x\<lparr>o_quantity := orElse (ou_quantity upd) (o_quantity x),
       o_availableQuantity := orElse (ou_availableQuantity upd) (o_availableQuantity x),
       o_originalPrice := orElse (ou_originalPrice upd) (o_originalPrice x),
       o_discountedPrice := orElse (ou_discountedPrice upd) (o_discountedPrice x),
       o_pickupStart := orElse (ou_pickupStart upd) (o_pickupStart x),
       o_pickupEnd := orElse (ou_pickupEnd upd) (o_pickupEnd x),
       o_isActive := orElse (ou_isActive upd) (o_isActive x)\<rparr>"

definition Offer_findByIdAndUpdate ::
  "oid \<Rightarrow> offer_update \<Rightarrow> db \<Rightarrow> error + offer option \<times> db" where
  "Offer_findByIdAndUpdate i upd st =
     (if offer_update_errors upd \<noteq> [] then Inl (ValidationError (offer_update_errors upd))
      else (let os = updateOne (\<lambda>x. o_id x = i) (applyOfferUpdate upd) (offers st)
            in Inr (findById o_id i os, st\<lparr>offers := os\<rparr>)))"

text \<open>\<open>updateOffer\<close>.\<close>

definition updateOffer ::
  "user \<Rightarrow> oid \<Rightarrow> offer_update \<Rightarrow> db \<Rightarrow> (error + nat \<times> offer option) \<times> db" where
  "updateOffer usr i body st =
     (case findById o_id i (offers st) of
        None \<Rightarrow> (Inl (ErrorResponse ''No offer with the id'' 404), st)
      | Some offer \<Rightarrow>
          if o_seller offer \<noteq> u_id usr \<and> u_role usr \<noteq> ''admin''
          then (Inl (ErrorResponse ''User is not authorized to update this offer'' 401), st)
          else (let body1 =
                      (case ou_quantity body of
                         None \<Rightarrow> body
                       | Some q \<Rightarrow>
                           if q = 0 then body
                           else body\<lparr>ou_availableQuantity :=
                                  Some (max 0 (o_availableQuantity offer + (q - o_quantity offer)))\<rparr>)
                in case Offer_findByIdAndUpdate i body1 st of
                     Inl e \<Rightarrow> (Inl e, st)
                   | Inr (updated, st1) \<Rightarrow> (Inr (200, updated), st1)))"

text \<open>
  \<open>deleteOffer\<close>. \<open>Booking.updateMany\<close> runs no validator and no \<open>save\<close> middleware;
  \<open>offer.remove()\<close> runs the \<open>pre('remove')\<close> hook, which deletes the offer's bookings,
  and then deletes the offer. The controller awaits two writes, and a successful result
  lists the database after each of them, so that what the first write does is part of
  the result although the second removes the bookings it has marked.
\<close>

definition Offer_remove :: "offer \<Rightarrow> db \<Rightarrow> db" where
  "Offer_remove this st =
     (let st1 = st\<lparr>bookings := deleteMany (\<lambda>b. b_offer b = o_id this) (bookings st)\<rparr>
      in st1\<lparr>offers := deleteMany (\<lambda>x. o_id x = o_id this) (offers st1)\<rparr>)"

definition deleteOffer :: "user \<Rightarrow> oid \<Rightarrow> db \<Rightarrow> (error + nat) \<times> db list" where
  "deleteOffer usr i st =
     (case findById o_id i (offers st) of
        None \<Rightarrow> (Inl (ErrorResponse ''No offer with the id'' 404), [])
      | Some offer \<Rightarrow>
          if o_seller offer \<noteq> u_id usr \<and> u_role usr \<noteq> ''admin''
          then (Inl (ErrorResponse ''User is not authorized to delete this offer'' 401), [])
          else (let st1 = st\<lparr>bookings :=
                       updateMany
                         (\<lambda>b. b_offer b = o_id offer \<and> b_status b \<in> set [pending, confirmed])
                         (\<lambda>b. b\<lparr>b_status := cancelled,
                                b_cancelledBy :=
                                  Some (if u_role usr = ''admin'' then ''admin'' else ''seller''),
                                b_cancellationReason := Some ''Offer was deleted by the seller''\<rparr>)
                         (bookings st)\<rparr>;
                    st2 = Offer_remove offer st1
                in (Inr 200, [st1, st2])))"

section \<open>Ratings from reviews (models/Review.js, controllers/reviewController.js)\<close>

text \<open>
  \<open>reviewSchema.statics.calcAverageRatings\<close>: the reviews of the store that are not
  marked deleted are grouped; \<open>Store.findByIdAndUpdate\<close> writes the average without
  validation (0 when there is no such review), while \<open>ratingCount\<close>, which \<open>storeSchema\<close>
  does not declare, is dropped from the update. The post-save and post-findOneAnd hooks
  of the Review model call it; no hook runs on \<open>review.remove()\<close>.
\<close>

definition calcAverageRatings :: "oid \<Rightarrow> db \<Rightarrow> db" where
  "calcAverageRatings storeId st =
     (let stats = filter (\<lambda>r. rv_store r = storeId \<and> rv_isDeleted r \<noteq> True) (reviews st)
      in if stats \<noteq> []
         then st\<lparr>stores := updateOne (\<lambda>s. s_id s = storeId)
                   (\<lambda>s. s\<lparr>s_rating := Some (avg (map rv_rating stats))\<rparr>) (stores st)\<rparr>
         else st\<lparr>stores := updateOne (\<lambda>s. s_id s = storeId)
                   (\<lambda>s. s\<lparr>s_rating := Some 0\<rparr>) (stores st)\<rparr>)"

text \<open>
  The helper \<open>calculateAverageRating(id, type)\<close> of the review controller. Its
  aggregation selects the reviews of the store (or offer) whose \<open>isApproved\<close> is
  \<open>true\<close>; \<open>reviewSchema\<close> declares no such path, so no review that Mongoose has written
  carries it. The helper assigns \<open>rating\<close> (and \<open>ratingCount\<close>, which is not a path and
  is ignored) and saves the document; \<open>save\<close> validates it (\<open>rating\<close> has \<open>min: 1\<close> and
  \<open>max: 5\<close> in both schemas), and the \<open>catch\<close> logs a failure and goes on. The
  recomputation that the post-save hooks of Store and Offer start without awaiting it is
  outside this sequential model.
\<close>

datatype rated = type_store | type_offer

definition isApproved :: "review \<Rightarrow> bool" where
  "isApproved r = False"

definition store_errors :: "store \<Rightarrow> string list" where
  "store_errors s = rating_errors (s_rating s)"

definition calculateAverageRating :: "oid \<Rightarrow> rated \<Rightarrow> db \<Rightarrow> db" where
  "calculateAverageRating i type st =
     (case type of
        type_store \<Rightarrow>
          (case findById s_id i (stores st) of
             None \<Rightarrow> st
           | Some obj \<Rightarrow>
               (let stats = filter (\<lambda>r. rv_store r = i \<and> isApproved r) (reviews st);
                    obj1 = (if stats \<noteq> []
                            then obj\<lparr>s_rating := Some (avg (map rv_rating stats))\<rparr>
                            else obj\<lparr>s_rating := Some 0\<rparr>)
                in if store_errors obj1 \<noteq> [] then st
                   else st\<lparr>stores := updateOne (\<lambda>s. s_id s = i) (\<lambda>s. obj1) (stores st)\<rparr>))
      | type_offer \<Rightarrow>
          (case findById o_id i (offers st) of
             None \<Rightarrow> st
           | Some obj \<Rightarrow>
               (let stats = filter (\<lambda>r. rv_offer r = i \<and> isApproved r) (reviews st);
                    obj1 = (if stats \<noteq> []
                            then obj\<lparr>o_rating := Some (avg (map rv_rating stats))\<rparr>
                            else obj\<lparr>o_rating := Some 0\<rparr>)
                in if offer_errors obj1 \<noteq> [] then st
                   else st\<lparr>offers := updateOne (\<lambda>x. o_id x = i) (\<lambda>x. obj1) (offers st)\<rparr>)))"

text \<open>
  \<open>deleteReview\<close>. \<open>Review.findById\<close> populates \<open>user\<close>, so the check compares the
  string of a document with \<open>req.user.id\<close>. \<open>review.remove()\<close> runs neither the
  post-save nor the post-findOneAnd hook; the controller then calls the helper for the
  store and the offer.
\<close>

definition deleteReview :: "user \<Rightarrow> oid \<Rightarrow> db \<Rightarrow> (error + nat) \<times> db" where
  "deleteReview usr i st =
     (case findById rv_id i (reviews st) of
        None \<Rightarrow> (Inl (ErrorResponse ''No review with the id'' 404), st)
      | Some review \<Rightarrow>
          (case toStringPopulated (users st) (rv_user review) of
             Inl e \<Rightarrow> (Inl e, st)
           | Inr userString \<Rightarrow>
               if userString \<noteq> reqUserId usr \<and> u_role usr \<noteq> ''admin''
               then (Inl (ErrorResponse ''User is not authorized to delete this review'' 401), st)
               else (let st1 = st\<lparr>reviews := deleteMany (\<lambda>r. rv_id r = rv_id review) (reviews st)\<rparr>;
                         st2 = calculateAverageRating (rv_store review) type_store st1
                     in (Inr 200, calculateAverageRating (rv_offer review) type_offer st2))))"

section \<open>Example data\<close>

text \<open>
  Users 1, 2, 3 and 9 exist. A seller (user 1) owns store 20 and offer 10: three
  portions, of which booking 30 of buyer 2 reserves two, so one is available. The pickup
  window is from 1000 to 2000. The store has two reviews, with ratings 5 and 3, and the
  rating 4.
\<close>

definition seller1 :: user where "seller1 = \<lparr>u_id = 1, u_role = ''seller''\<rparr>"
definition buyer2 :: user where "buyer2 = \<lparr>u_id = 2, u_role = ''user''\<rparr>"
definition buyer3 :: user where "buyer3 = \<lparr>u_id = 3, u_role = ''user''\<rparr>"
definition admin9 :: user where "admin9 = \<lparr>u_id = 9, u_role = ''admin''\<rparr>"

definition offer1 :: offer where
  "offer1 = \<lparr>o_id = 10, o_originalPrice = 10, o_discountedPrice = 5, o_quantity = 3,
     o_availableQuantity = 1, o_pickupStart = 1000, o_pickupEnd = 2000, o_seller = 1,
     o_store = 20, o_isActive = True, o_rating = None, o_ratingCount = None\<rparr>"

definition booking1 :: booking where
  "booking1 = \<lparr>b_id = 30, b_offer = 10, b_user = 2, b_seller = 1, b_quantity = 2,
     b_totalPrice = 10, b_status = pending, b_pickupCode = ''AAAAAA'', b_pickupTime = 1000,
     b_rating = None, b_review = None, b_cancellationReason = None, b_cancelledBy = None,
     b_paymentStatus = ''pending'', b_paymentMethod = ''cash''\<rparr>"

definition store1 :: store where
  "store1 = \<lparr>s_id = 20, s_owner = 1, s_rating = Some 4, s_ratingCount = None\<rparr>"

definition review1 :: review where
  "review1 = \<lparr>rv_id = 40, rv_user = 2, rv_store = 20, rv_offer = 10, rv_rating = 5,
     rv_isDeleted = False\<rparr>"

definition review2 :: review where
  "review2 = \<lparr>rv_id = 41, rv_user = 3, rv_store = 20, rv_offer = 10, rv_rating = 3,
     rv_isDeleted = False\<rparr>"

definition db1 :: db where
  "db1 = \<lparr>users = [1, 2, 3, 9], offers = [offer1], bookings = [booking1], stores = [store1],
     reviews = [review1, review2], notifications = [], nextId = 100\<rparr>"

text \<open>A request body of \<open>addBooking\<close> that sets no path.\<close>

definition noBody :: booking_body where
  "noBody = \<lparr>bb_quantity = None, bb_status = None, bb_rating = None, bb_review = None,
     bb_cancellationReason = None, bb_cancelledBy = None, bb_paymentStatus = None,
     bb_paymentMethod = None\<rparr>"

text \<open>
  The booking that \<open>addBooking\<close> creates for buyer 3 on offer 10 in \<open>db1\<close> (the draws
  \<open>[1,2,3,4,5,6]\<close> spell the pickup code \<open>BCDEFG\<close>), and the notification to the seller.
\<close>

definition newBooking :: "rat \<Rightarrow> status \<Rightarrow> booking" where
  "newBooking q sts = \<lparr>b_id = 100, b_offer = 10, b_user = 3, b_seller = 1, b_quantity = q,
     b_totalPrice = 5 * q, b_status = sts, b_pickupCode = ''BCDEFG'', b_pickupTime = 1000,
     b_rating = None, b_review = None, b_cancellationReason = None, b_cancelledBy = None,
     b_paymentStatus = ''pending'', b_paymentMethod = ''cash''\<rparr>"

definition created100 :: notification where
  "created100 = \<lparr>n_user = 1, n_type = ''booking_created'', n_entityType = ''booking'',
     n_entityId = 100\<rparr>"

text \<open>A request body of \<open>updateOffer\<close> that sets no field.\<close>

definition noUpdate :: offer_update where
  "noUpdate = \<lparr>ou_quantity = None, ou_availableQuantity = None, ou_originalPrice = None,
     ou_discountedPrice = None, ou_pickupStart = None, ou_pickupEnd = None,
     ou_isActive = None\<rparr>"

section \<open>Properties\<close>

lemmas example_defs = seller1_def buyer2_def buyer3_def admin9_def offer1_def booking1_def
  store1_def review1_def review2_def db1_def noBody_def newBooking_def created100_def

lemmas validator_defs = quantity_errors_def status_errors_def pickupCode_errors_def
  rating_errors_def review_errors_def enum_errors_def cancelledBy_enum_def
  paymentStatus_enum_def paymentMethod_enum_def status_of_string_def

lemmas booking_defs = Let_def generatePickupCode.simps addBooking_def Booking_create_def
  create_errors_def booking_errors_def update_errors_def validator_defs
  booking_pre_save_def booking_post_save_def booking_post_save_loaded_def
  incAvailableQuantity_def Offer_getAverageRating_def findById_def Notification_create_def
  quantityOr1_def truthy_def truthyStr_def sixChars_def charAt_def characters_def
  populated_def toStringPopulated_def reqUserId_def notAuthorized_def
  updateBooking_def statusBlock_def cancellationBlock_def Booking_findByIdAndUpdate_def
  applyUpdate_def setField_def emptyUpdate_def validTransitions_def
  completeBookingWithCode_def Booking_save_def

subsection \<open>Lists of documents\<close>

lemma find_updateOne_same:
  assumes "\<And>x. P x \<Longrightarrow> P (f x)"
  shows "find P (updateOne P f xs) = map_option f (find P xs)"
  by (induction xs) (auto simp: assms)

lemma find_updateOne_proj:
  assumes "\<And>x. ident (f x) = ident x" and "\<And>x. g (f x) = g x"
  shows "map_option g (find (\<lambda>x. ident x = i) (updateOne P f xs)) =
         map_option g (find (\<lambda>x. ident x = i) xs)"
  by (induction xs) (auto simp: assms)

lemma offers_Notification_create [simp]: "offers (Notification_create n st) = offers st"
  by (simp add: Notification_create_def)

lemma bookings_Notification_create [simp]: "bookings (Notification_create n st) = bookings st"
  by (simp add: Notification_create_def)

subsection \<open>Pickup codes\<close>

lemma foldl_charAt_length:
  "\<forall>d\<in>set ds. d < length s \<Longrightarrow>
   length (foldl (\<lambda>code d. code @ charAt s d) acc ds) = length acc + length ds"
  by (induction ds arbitrary: acc) (auto simp: charAt_def)

lemma charAt_set: "set (charAt s d) \<subseteq> set s"
  by (auto simp: charAt_def)

lemma foldl_charAt_set:
  "set (foldl (\<lambda>code d. code @ charAt s d) acc ds) \<subseteq> set acc \<union> set s"
proof (induction ds arbitrary: acc)
  case Nil
  show ?case by simp
next
  case (Cons d ds)
  have "set (foldl (\<lambda>code d. code @ charAt s d) (acc @ charAt s d) ds)
        \<subseteq> set (acc @ charAt s d) \<union> set s"
    by (rule Cons.IH)
  also have "\<dots> \<subseteq> set acc \<union> set s"
    using charAt_set [of s d] by auto
  finally show ?case by simp
qed

lemma length_characters: "length characters = 32"
  by (simp add: characters_def)

lemma sixChars_length:
  assumes "6 \<le> length draws" and "\<forall>d\<in>set draws. d < 32"
  shows "length (sixChars draws) = 6"
proof -
  have "\<forall>d\<in>set (take 6 draws). d < length characters"
    using assms(2) unfolding length_characters by (blast dest: in_set_takeD)
  then have "length (sixChars draws) = length (take 6 draws)"
    unfolding sixChars_def by (simp add: foldl_charAt_length)
  with assms(1) show ?thesis by simp
qed

lemma sixChars_alphabet: "set (sixChars draws) \<subseteq> set characters"
  unfolding sixChars_def using foldl_charAt_set [of characters "[]" "take 6 draws"] by simp

lemma generatePickupCode_fresh:
  "generatePickupCode draws bs = Some code \<Longrightarrow>
   \<exists>ds. code = sixChars ds \<and> 6 \<le> length ds \<and> set ds \<subseteq> set draws \<and>
        code \<notin> b_pickupCode ` set bs"
proof (induction draws bs rule: generatePickupCode.induct)
  case (1 draws bs)
  show ?case
  proof (cases "length draws < 6")
    case True
    with "1.prems" show ?thesis by (simp add: generatePickupCode.simps)
  next
    case long: False
    show ?thesis
    proof (cases "find (\<lambda>b. b_pickupCode b = sixChars draws) bs")
      case None
      with long "1.prems" have c: "code = sixChars draws"
        by (simp add: generatePickupCode.simps)
      from None have "sixChars draws \<notin> b_pickupCode ` set bs"
        by (auto simp: find_None_iff)
      with c long show ?thesis by (intro exI [of _ draws]) auto
    next
      case (Some b)
      with long "1.prems" have "generatePickupCode (drop 6 draws) bs = Some code"
        by (simp add: generatePickupCode.simps)
      from "1.IH" [OF long Some this] obtain ds where
        "code = sixChars ds" "6 \<le> length ds" "set ds \<subseteq> set (drop 6 draws)"
        "code \<notin> b_pickupCode ` set bs" by blast
      moreover have "set (drop 6 draws) \<subseteq> set draws" by (rule set_drop_subset)
      ultimately show ?thesis by (intro exI [of _ ds]) auto
    qed
  qed
qed

text \<open>
  C6. Every value returned by \<open>generatePickupCode\<close> is a string of six characters of the
  alphabet \<open>ABCDEFGHJKLMNPQRSTUVWXYZ23456789\<close> and differs from the pickup code of every
  booking that exists at the time of the call. The draws are indices below 32, as
  \<open>Math.floor(Math.random() * 32)\<close> always is.
\<close>

theorem generatePickupCode_unique:
  assumes "generatePickupCode draws bs = Some code"
    and "\<forall>d\<in>set draws. d < 32"
  shows "length code = 6 \<and> set code \<subseteq> set ''ABCDEFGHJKLMNPQRSTUVWXYZ23456789'' \<and>
         (\<forall>b\<in>set bs. b_pickupCode b \<noteq> code)"
proof -
  from generatePickupCode_fresh [OF assms(1)] obtain ds where
    ds: "code = sixChars ds" "6 \<le> length ds" "set ds \<subseteq> set draws"
        "code \<notin> b_pickupCode ` set bs" by blast
  from ds(3) assms(2) have "\<forall>d\<in>set ds. d < 32" by blast
  with ds(1,2) have "length code = 6" by (simp add: sixChars_length)
  moreover from ds(1) have "set code \<subseteq> set ''ABCDEFGHJKLMNPQRSTUVWXYZ23456789''"
    using sixChars_alphabet [of ds] by (simp add: characters_def)
  moreover from ds(4) have "\<forall>b\<in>set bs. b_pickupCode b \<noteq> code" by auto
  ultimately show ?thesis by blast
qed

text \<open>
  The first six draws spell \<open>AAAAAA\<close>, which booking 30 already holds; the loop starts
  again and returns \<open>BCDEFG\<close>.
\<close>

theorem generatePickupCode_unique_witness:
  "generatePickupCode [0,0,0,0,0,0,1,2,3,4,5,6] [booking1] = Some ''BCDEFG'' \<and>
   length ''BCDEFG'' = 6 \<and> set ''BCDEFG'' \<subseteq> set ''ABCDEFGHJKLMNPQRSTUVWXYZ23456789'' \<and>
   b_pickupCode booking1 \<noteq> ''BCDEFG''"
proof -
  have r: "generatePickupCode [0,0,0,0,0,0,1,2,3,4,5,6] [booking1] = Some ''BCDEFG''"
    by (simp add: generatePickupCode.simps sixChars_def charAt_def characters_def booking1_def)
  have d: "\<forall>d\<in>set [0,0,0,0,0,0,1,2,3,4,5,6::nat]. d < 32" by simp
  from generatePickupCode_unique [OF r d] r show ?thesis by simp
qed

subsection \<open>The available quantity while bookings are created\<close>

lemma avail_incAvailableQuantity:
  "map_option o_availableQuantity (findById o_id i (incAvailableQuantity i d os)) =
   map_option (\<lambda>a. a + d) (map_option o_availableQuantity (findById o_id i os))"
  unfolding findById_def incAvailableQuantity_def
  by (subst find_updateOne_same) (auto simp: option.map_comp comp_def)

lemma avail_getAverageRating:
  "map_option o_availableQuantity (findById o_id i (offers (Offer_getAverageRating j st))) =
   map_option o_availableQuantity (findById o_id i (offers st))"
  unfolding findById_def Offer_getAverageRating_def Let_def
  by (simp add: find_updateOne_proj)

lemma avail_post_save:
  "map_option o_availableQuantity (findById o_id i (offers (booking_post_save doc st))) =
   map_option o_availableQuantity (findById o_id i (offers st))"
  unfolding booking_post_save_def by (simp add: avail_getAverageRating)

lemma avail_pre_save_new:
  "map_option o_availableQuantity
     (findById o_id (b_offer doc) (offers (booking_pre_save True m doc st))) =
   (if m \<and> b_status doc = cancelled
    then map_option o_availableQuantity (findById o_id (b_offer doc) (offers st))
    else map_option (\<lambda>x. o_availableQuantity x - b_quantity doc)
           (findById o_id (b_offer doc) (offers st)))"
  unfolding booking_pre_save_def Let_def
  by (simp add: avail_incAvailableQuantity option.map_comp comp_def)

lemma Booking_create_avail:
  assumes "Booking_create body offerId userId sellerId totalPrice pickupCode pickupTime st
           = Inr (doc, st')"
  shows "b_offer doc = offerId \<and>
         map_option o_availableQuantity (findById o_id offerId (offers st')) =
         (if b_status doc = cancelled
          then map_option o_availableQuantity (findById o_id offerId (offers st))
          else map_option (\<lambda>x. o_availableQuantity x - b_quantity doc)
                 (findById o_id offerId (offers st)))"
proof -
  from assms obtain q sts where q: "bb_quantity body = Some q"
    and sts: "(case bb_status body of None \<Rightarrow> Some pending | Some s \<Rightarrow> status_of_string s)
              = Some sts"
    by (auto simp: Booking_create_def split: option.splits)
  define d where "d = \<lparr>b_id = nextId st, b_offer = offerId, b_user = userId,
                           b_seller = sellerId, b_quantity = q, b_totalPrice = totalPrice,
                           b_status = sts, b_pickupCode = pickupCode, b_pickupTime = pickupTime,
                           b_rating = bb_rating body, b_review = bb_review body,
                           b_cancellationReason = bb_cancellationReason body,
                           b_cancelledBy = bb_cancelledBy body,
                           b_paymentStatus =
                             (case bb_paymentStatus body of None \<Rightarrow> ''pending'' | Some p \<Rightarrow> p),
                           b_paymentMethod =
                             (case bb_paymentMethod body of None \<Rightarrow> ''cash'' | Some p \<Rightarrow> p)\<rparr>"
  define st1 where "st1 = booking_pre_save True (bb_status body \<noteq> None) d st"
  from assms q sts have doc: "doc = d"
    and st': "st' = booking_post_save d
                (st1\<lparr>bookings := bookings st1 @ [d], nextId := Suc (nextId st1)\<rparr>)"
    by (auto simp: Booking_create_def Let_def d_def st1_def split: if_splits)
  have off: "b_offer d = offerId" by (simp add: d_def)
  have m: "b_status d = cancelled \<Longrightarrow> bb_status body \<noteq> None"
    using sts by (auto simp: d_def split: option.splits)
  have "map_option o_availableQuantity (findById o_id offerId (offers st')) =
        map_option o_availableQuantity (findById o_id (b_offer d) (offers st1))"
    unfolding st' by (simp add: avail_post_save off)
  also have "\<dots> = (if b_status d = cancelled
          then map_option o_availableQuantity (findById o_id offerId (offers st))
          else map_option (\<lambda>x. o_availableQuantity x - b_quantity d)
                 (findById o_id offerId (offers st)))"
    unfolding st1_def avail_pre_save_new using m by (auto simp: off)
  finally show ?thesis using doc off by simp
qed

text \<open>
  C2, as amended. When \<open>addBooking\<close> creates a booking, the first offer with the
  requested id loses exactly the booking's quantity, unless the booking is created with
  status \<open>cancelled\<close> (a client may send \<open>status\<close>; the default is \<open>pending\<close>): then the
  pre-save hook takes the quantity and gives it back, and the available quantity is as
  before.
\<close>

theorem addBooking_decrements_availableQuantity:
  assumes "addBooking usr offerId body now draws st = Some (Inr (code, booking), st')"
  shows "b_offer booking = offerId \<and>
         (\<exists>offer. findById o_id offerId (offers st) = Some offer \<and>
            map_option o_availableQuantity (findById o_id offerId (offers st')) =
              Some (if b_status booking = cancelled then o_availableQuantity offer
                    else o_availableQuantity offer - b_quantity booking))"
proof -
  from assms obtain offer where offer: "findById o_id offerId (offers st) = Some offer"
    by (auto simp: addBooking_def split: option.splits)
  from assms offer obtain pickupCode st1 where
    create: "Booking_create body offerId (u_id usr) (o_seller offer)
               (o_discountedPrice offer * quantityOr1 (bb_quantity body))
               pickupCode (o_pickupStart offer) st = Inr (booking, st1)"
    and st': "offers st' = offers st1"
    by (auto simp: addBooking_def split: option.splits if_splits sum.splits)
  from Booking_create_avail [OF create] offer st' show ?thesis by auto
qed

text \<open>Buyer 3 books one portion of offer 10: the available quantity goes from 1 to 0.\<close>

theorem addBooking_decrements_availableQuantity_witness:
  "addBooking buyer3 10 (noBody\<lparr>bb_quantity := Some 1\<rparr>)
       1500 [1,2,3,4,5,6] db1 =
     Some (Inr (201, newBooking 1 pending),
           db1\<lparr>offers := [offer1\<lparr>o_availableQuantity := 0\<rparr>],
               bookings := [booking1, newBooking 1 pending],
               notifications := [created100], nextId := 101\<rparr>) \<and>
   findById o_id 10 (offers db1) = Some offer1 \<and> o_availableQuantity offer1 = 1 \<and>
   b_quantity (newBooking 1 pending) = 1 \<and>
   map_option o_availableQuantity
     (findById o_id 10 (offers (db1\<lparr>offers := [offer1\<lparr>o_availableQuantity := 0\<rparr>],
               bookings := [booking1, newBooking 1 pending],
               notifications := [created100], nextId := 101\<rparr>))) = Some 0"
proof -
  have r: "addBooking buyer3 10 (noBody\<lparr>bb_quantity := Some 1\<rparr>)
       1500 [1,2,3,4,5,6] db1 =
     Some (Inr (201, newBooking 1 pending),
           db1\<lparr>offers := [offer1\<lparr>o_availableQuantity := 0\<rparr>],
               bookings := [booking1, newBooking 1 pending],
               notifications := [created100], nextId := 101\<rparr>)"
    by (simp add: booking_defs example_defs)
  from addBooking_decrements_availableQuantity [OF r] r show ?thesis
    by (simp add: findById_def example_defs)
qed

text \<open>
  C2 as stated fails: buyer 3 sends \<open>status: 'cancelled'\<close> with the booking of one
  portion. The booking is created (201) and the offer's available quantity is 1 before
  and after, not 1 - 1.
\<close>

theorem addBooking_cancelled_counterexample:
  "addBooking buyer3 10 (noBody\<lparr>bb_quantity := Some 1, bb_status := Some ''cancelled''\<rparr>)
       1500 [1,2,3,4,5,6] db1 =
     Some (Inr (201, newBooking 1 cancelled),
           db1\<lparr>bookings := [booking1, newBooking 1 cancelled],
               notifications := [created100], nextId := 101\<rparr>) \<and>
   offers db1 = [offer1] \<and> o_availableQuantity offer1 = 1 \<and>
   b_quantity (newBooking 1 cancelled) = 1"
  by (simp add: booking_defs example_defs)

text \<open>
  C4, the failing input. Offer 10 has one portion available and buyer 3 books five:
  \<open>addBooking\<close> compares the available quantity with 0 only, creates the booking, and
  the pre-save hook leaves \<open>availableQuantity = -4\<close>.
\<close>

theorem addBooking_overbooks:
  "addBooking buyer3 10 (noBody\<lparr>bb_quantity := Some 5\<rparr>)
       1500 [1,2,3,4,5,6] db1 =
     Some (Inr (201, newBooking 5 pending),
           db1\<lparr>offers := [offer1\<lparr>o_availableQuantity := - 4\<rparr>],
               bookings := [booking1, newBooking 5 pending],
               notifications := [created100], nextId := 101\<rparr>) \<and>
   offers db1 = [offer1] \<and> o_availableQuantity offer1 = 1"
  by (simp add: booking_defs example_defs)

theorem addBooking_overbooks_witness:
  "map_option (\<lambda>r. map o_availableQuantity (offers (snd r)))
     (addBooking buyer3 10 (noBody\<lparr>bb_quantity := Some 5\<rparr>)
        1500 [1,2,3,4,5,6] db1) = Some [- 4]"
  using addBooking_overbooks by (simp add: example_defs)

subsection \<open>Updating offers\<close>

lemma applyOfferUpdate_id [simp]: "o_id (applyOfferUpdate upd x) = o_id x"
  by (simp add: applyOfferUpdate_def)

lemma Offer_findByIdAndUpdate_result:
  assumes "Offer_findByIdAndUpdate i upd st = Inr (r, st')"
  shows "offer_update_errors upd = [] \<and>
         r = map_option (applyOfferUpdate upd) (findById o_id i (offers st)) \<and>
         findById o_id i (offers st') = r"
proof -
  from assms have ok: "offer_update_errors upd = []"
    and r: "r = findById o_id i (updateOne (\<lambda>x. o_id x = i) (applyOfferUpdate upd) (offers st))"
    and st': "offers st' = updateOne (\<lambda>x. o_id x = i) (applyOfferUpdate upd) (offers st)"
    by (auto simp: Offer_findByIdAndUpdate_def Let_def split: if_splits)
  have "findById o_id i (updateOne (\<lambda>x. o_id x = i) (applyOfferUpdate upd) (offers st)) =
        map_option (applyOfferUpdate upd) (findById o_id i (offers st))"
    unfolding findById_def by (rule find_updateOne_same) simp
  with ok r st' show ?thesis by simp
qed

text \<open>
  C10. When \<open>updateOffer\<close> accepts a request (status 200) whose \<open>quantity\<close> is present
  and not 0, the offer's \<open>quantity\<close> is the new one and its \<open>availableQuantity\<close> is
  \<open>max 0 (old availableQuantity + (new quantity - old quantity))\<close>, hence not negative;
  every modelled field that the request body does not name keeps its value (with no
  \<open>quantity\<close> in the body, \<open>availableQuantity\<close> changes only if the body names it).
\<close>

theorem updateOffer_quantity:
  assumes "updateOffer usr i body st = (Inr (code, updated), st')"
  shows "\<exists>old new.
     findById o_id i (offers st) = Some old \<and> findById o_id i (offers st') = Some new \<and>
     updated = Some new \<and> code = 200 \<and>
     (\<forall>q. ou_quantity body = Some q \<and> q \<noteq> 0 \<longrightarrow>
          o_quantity new = q \<and> 0 \<le> o_availableQuantity new \<and>
          o_availableQuantity new = max 0 (o_availableQuantity old + (q - o_quantity old))) \<and>
     (ou_quantity body = None \<longrightarrow> o_quantity new = o_quantity old) \<and>
     (ou_quantity body = None \<and> ou_availableQuantity body = None \<longrightarrow>
        o_availableQuantity new = o_availableQuantity old) \<and>
     (ou_originalPrice body = None \<longrightarrow> o_originalPrice new = o_originalPrice old) \<and>
     (ou_discountedPrice body = None \<longrightarrow> o_discountedPrice new = o_discountedPrice old) \<and>
     (ou_pickupStart body = None \<longrightarrow> o_pickupStart new = o_pickupStart old) \<and>
     (ou_pickupEnd body = None \<longrightarrow> o_pickupEnd new = o_pickupEnd old) \<and>
     (ou_isActive body = None \<longrightarrow> o_isActive new = o_isActive old) \<and>
     o_id new = o_id old \<and> o_seller new = o_seller old \<and> o_store new = o_store old \<and>
     o_rating new = o_rating old \<and> o_ratingCount new = o_ratingCount old"
proof -
  from assms obtain old where old: "findById o_id i (offers st) = Some old"
    by (auto simp: updateOffer_def split: option.splits)
  define body1 where "body1 =
     (case ou_quantity body of
        None \<Rightarrow> body
      | Some q \<Rightarrow>
          if q = 0 then body
          else body\<lparr>ou_availableQuantity :=
                 Some (max 0 (o_availableQuantity old + (q - o_quantity old)))\<rparr>)"
  from assms old have upd: "Offer_findByIdAndUpdate i body1 st = Inr (updated, st')"
    and code: "code = 200"
    by (auto simp: updateOffer_def Let_def body1_def split: if_splits sum.splits)
  from Offer_findByIdAndUpdate_result [OF upd] old
  have new: "updated = Some (applyOfferUpdate body1 old)"
    and st': "findById o_id i (offers st') = Some (applyOfferUpdate body1 old)"
    by simp_all
  have q: "o_quantity (applyOfferUpdate body1 old) = q \<and>
          0 \<le> o_availableQuantity (applyOfferUpdate body1 old) \<and>
          o_availableQuantity (applyOfferUpdate body1 old) =
            max 0 (o_availableQuantity old + (q - o_quantity old))"
    if "ou_quantity body = Some q \<and> q \<noteq> 0" for q
    using that by (simp add: body1_def applyOfferUpdate_def orElse_def)
  have noq: "body1 = body" if "ou_quantity body = None"
    using that by (simp add: body1_def)
  have other: "ou_originalPrice body1 = ou_originalPrice body"
    "ou_discountedPrice body1 = ou_discountedPrice body"
    "ou_pickupStart body1 = ou_pickupStart body"
    "ou_pickupEnd body1 = ou_pickupEnd body"
    "ou_isActive body1 = ou_isActive body"
    by (simp_all add: body1_def split: option.splits)
  show ?thesis
  proof (rule exI [of _ old], rule exI [of _ "applyOfferUpdate body1 old"],
         intro conjI allI impI)
    show "findById o_id i (offers st) = Some old" by (rule old)
    show "findById o_id i (offers st') = Some (applyOfferUpdate body1 old)" by (rule st')
    show "updated = Some (applyOfferUpdate body1 old)" by (rule new)
    show "code = 200" by (rule code)
  qed (use q noq other in \<open>simp_all add: applyOfferUpdate_def orElse_def\<close>)
qed

lemmas offer_defs = Let_def findById_def updateOffer_def Offer_findByIdAndUpdate_def
  offer_update_errors_def applyOfferUpdate_def orElse_def createOffer_def offer_errors_def
  deleteOffer_def Offer_remove_def updateMany_def deleteMany_def
  Notification_create_def noUpdate_def

text \<open>
  The seller lowers the quantity of offer 10 from 3 to 1 while two portions are booked:
  1 + (1 - 3) is negative and the available quantity becomes 0.
\<close>

theorem updateOffer_quantity_witness:
  "updateOffer seller1 10 (noUpdate\<lparr>ou_quantity := Some 1\<rparr>) db1 =
     (Inr (200, Some (offer1\<lparr>o_quantity := 1, o_availableQuantity := 0\<rparr>)),
      db1\<lparr>offers := [offer1\<lparr>o_quantity := 1, o_availableQuantity := 0\<rparr>]\<rparr>) \<and>
   findById o_id 10 (offers db1) = Some offer1 \<and>
   o_quantity offer1 = 3 \<and> o_availableQuantity offer1 = 1 \<and>
   max 0 (o_availableQuantity offer1 + (1 - o_quantity offer1)) = 0 \<and>
   o_originalPrice (offer1\<lparr>o_quantity := 1, o_availableQuantity := 0\<rparr>) = o_originalPrice offer1"
proof -
  have r: "updateOffer seller1 10 (noUpdate\<lparr>ou_quantity := Some 1\<rparr>) db1 =
     (Inr (200, Some (offer1\<lparr>o_quantity := 1, o_availableQuantity := 0\<rparr>)),
      db1\<lparr>offers := [offer1\<lparr>o_quantity := 1, o_availableQuantity := 0\<rparr>]\<rparr>)"
    by (simp add: offer_defs example_defs)
  from updateOffer_quantity [OF r] r show ?thesis
    by (simp add: findById_def noUpdate_def example_defs)
qed

text \<open>\<open>createOffer\<close> validates the whole document, so a created offer has both invariants.\<close>

lemma createOffer_enforces_invariants:
  "createOffer usr storeId body st = (Inr (code, doc), st') \<Longrightarrow>
   o_discountedPrice doc < o_originalPrice doc \<and> o_pickupStart doc < o_pickupEnd doc"
  by (auto simp: createOffer_def offer_errors_def Let_def split: option.splits if_splits)

text \<open>
  C8, the failing input. The seller of offer 10 (original price 10, discounted price 5,
  pickup from 1000 to 2000) sends \<open>{originalPrice: 1, pickupStart: 3000}\<close> to
  \<open>updateOffer\<close>. The update validators check only the paths of the update
  (\<open>originalPrice\<close> has \<open>min: 0\<close>, \<open>pickupStart\<close> has no validator), the request is
  accepted with status 200, and the stored offer has a discounted price above its
  original price and a pickup end before its pickup start: the document validators of
  the schema reject it.
\<close>

theorem updateOffer_breaks_invariants:
  "updateOffer seller1 10 (noUpdate\<lparr>ou_originalPrice := Some 1, ou_pickupStart := Some 3000\<rparr>) db1 =
     (Inr (200, Some (offer1\<lparr>o_originalPrice := 1, o_pickupStart := 3000\<rparr>)),
      db1\<lparr>offers := [offer1\<lparr>o_originalPrice := 1, o_pickupStart := 3000\<rparr>]\<rparr>) \<and>
   o_discountedPrice (offer1\<lparr>o_originalPrice := 1, o_pickupStart := 3000\<rparr>) = 5 \<and>
   o_pickupEnd (offer1\<lparr>o_originalPrice := 1, o_pickupStart := 3000\<rparr>) = 2000 \<and>
   offer_errors (offer1\<lparr>o_originalPrice := 1, o_pickupStart := 3000\<rparr>) =
     [''discountedPrice'', ''pickupEnd'']"
  by (simp add: offer_defs example_defs)

theorem updateOffer_breaks_invariants_witness:
  "map (\<lambda>x. (o_discountedPrice x < o_originalPrice x, o_pickupStart x < o_pickupEnd x))
     (offers (snd (updateOffer seller1 10
        (noUpdate\<lparr>ou_originalPrice := Some 1, ou_pickupStart := Some 3000\<rparr>) db1))) =
   [(False, False)]"
  using updateOffer_breaks_invariants by (simp add: example_defs)

subsection \<open>Authorization of requests on a booking\<close>

lemma toStringPopulated_document:
  "toStringPopulated coll r = Inr s \<Longrightarrow> s \<noteq> reqUserId usr"
  by (auto simp: toStringPopulated_def reqUserId_def split: option.splits)

lemma notAuthorized_admin:
  assumes "notAuthorized st usr b = Inr False"
  shows "u_role usr = ''admin''"
proof (cases "toStringPopulated (users st) (b_user b)")
  case (Inl e)
  with assms show ?thesis by (simp add: notAuthorized_def)
next
  case userString: (Inr s)
  then have neq: "s \<noteq> reqUserId usr" by (rule toStringPopulated_document)
  show ?thesis
  proof (cases "toStringPopulated (users st) (b_seller b)")
    case (Inl e)
    with assms userString neq show ?thesis by (simp add: notAuthorized_def)
  next
    case (Inr t)
    then have "t \<noteq> reqUserId usr" by (rule toStringPopulated_document)
    with assms userString neq Inr show ?thesis by (simp add: notAuthorized_def)
  qed
qed

lemma notAuthorized_populated:
  assumes "notAuthorized st usr b = Inr r"
  shows "toStringPopulated (users st) (b_user b) = Inr (DocumentString (b_user b)) \<and>
         toStringPopulated (users st) (b_seller b) = Inr (DocumentString (b_seller b))"
proof (cases "toStringPopulated (users st) (b_user b)")
  case (Inl e)
  with assms show ?thesis by (simp add: notAuthorized_def)
next
  case userString: (Inr s)
  then have neq: "s \<noteq> reqUserId usr" by (rule toStringPopulated_document)
  from userString have s: "s = DocumentString (b_user b)"
    by (auto simp: toStringPopulated_def populated_def split: if_splits)
  show ?thesis
  proof (cases "toStringPopulated (users st) (b_seller b)")
    case (Inl e)
    with assms userString neq show ?thesis by (simp add: notAuthorized_def)
  next
    case (Inr t)
    then have "t = DocumentString (b_seller b)"
      by (auto simp: toStringPopulated_def populated_def split: if_splits)
    with userString s Inr show ?thesis by simp
  qed
qed

subsection \<open>Cancelling through \<open>updateBooking\<close>\<close>

lemma cancellationBlock_result:
  assumes "cancellationBlock usr booking body now upd st = Inr (upd', st1)"
  shows "st1 = st \<and> up_status upd' = up_status upd \<and>
         (u_role usr = ''admin'' \<longrightarrow> up_cancelledBy upd' = Some ''admin'')"
proof -
  have neq: "toStringPopulated (users st) r = Inr s \<Longrightarrow> reqUserId usr \<noteq> s" for r s
    using toStringPopulated_document [of "users st" r s usr] by auto
  from assms show ?thesis
    unfolding cancellationBlock_def
    by (auto split: sum.splits if_splits dest: neq)
qed

lemma statusBlock_result:
  assumes "statusBlock usr booking body now st = Inr (upd, st1)"
  shows "bookings st1 = bookings st \<and> offers st1 = offers st \<and>
         (up_status upd = None \<or>
          (\<exists>s. up_status upd = Some s \<and> s \<in> set (validTransitions (b_status booking)) \<and>
               (s = ''cancelled'' \<and> u_role usr = ''admin'' \<longrightarrow>
                  up_cancelledBy upd = Some ''admin'')))"
proof (cases "ub_status body")
  case None
  with assms show ?thesis by (auto simp: statusBlock_def emptyUpdate_def)
next
  case (Some sts)
  show ?thesis
  proof (cases "sts = [] \<or> sts \<notin> set (validTransitions (b_status booking))")
    case True
    with assms Some show ?thesis by (auto simp: statusBlock_def emptyUpdate_def split: if_splits)
  next
    case valid: False
    show ?thesis
    proof (cases "sts = ''cancelled''")
      case True
      with assms Some valid obtain upd1 where
        c: "cancellationBlock usr booking body now (emptyUpdate\<lparr>up_status := Some sts\<rparr>) st
            = Inr (upd1, st1)" and u: "upd = upd1"
        by (auto simp: statusBlock_def split: sum.splits)
      from cancellationBlock_result [OF c] u valid True show ?thesis by simp
    next
      case False
      with assms Some valid show ?thesis
        by (auto simp: statusBlock_def emptyUpdate_def split: if_splits)
    qed
  qed
qed

lemma Booking_findByIdAndUpdate_result:
  assumes "Booking_findByIdAndUpdate i upd st = Inr (r, st1)"
  shows "update_errors upd = [] \<and> offers st1 = offers st \<and>
         bookings st1 = updateOne (\<lambda>b. b_id b = i) (applyUpdate upd) (bookings st) \<and>
         r = findById b_id i (bookings st1)"
  using assms by (auto simp: Booking_findByIdAndUpdate_def Let_def split: if_splits)

lemma update_errors_admin_cancel:
  "up_cancelledBy upd = Some ''admin'' \<Longrightarrow> update_errors upd \<noteq> []"
  by (simp add: update_errors_def enum_errors_def cancelledBy_enum_def)

text \<open>
  What \<open>updateBooking\<close> does to the database: nothing, or it applies an update whose
  status, if any, is a valid transition other than a cancellation.
\<close>

lemma updateBooking_bookings:
  "(bookings (snd (updateBooking usr i body now st)) = bookings st \<or>
    (\<exists>booking upd.
      findById b_id i (bookings st) = Some booking \<and>
      (up_status upd = None \<or>
       (\<exists>s. up_status upd = Some s \<and> s \<in> set (validTransitions (b_status booking)) \<and>
            s \<noteq> ''cancelled'')) \<and>
      bookings (snd (updateBooking usr i body now st)) =
        updateOne (\<lambda>b. b_id b = i) (applyUpdate upd) (bookings st))) \<and>
   offers (snd (updateBooking usr i body now st)) = offers st"
proof (cases "findById b_id i (bookings st)")
  case None
  then show ?thesis by (simp add: updateBooking_def)
next
  case found: (Some booking)
  show ?thesis
  proof (cases "notAuthorized st usr booking")
    case (Inl e)
    with found show ?thesis by (simp add: updateBooking_def)
  next
    case guard: (Inr refused)
    show ?thesis
    proof (cases refused)
      case True
      with found guard show ?thesis by (simp add: updateBooking_def)
    next
      case False
      with guard have admin: "u_role usr = ''admin''" by (simp add: notAuthorized_admin)
      show ?thesis
      proof (cases "statusBlock usr booking body now st")
        case (Inl e)
        with found guard False show ?thesis by (simp add: updateBooking_def)
      next
        case block: (Inr p)
        obtain upd st1 where p: "p = (upd, st1)" by (cases p)
        from block p have blk: "statusBlock usr booking body now st = Inr (upd, st1)" by simp
        note res = statusBlock_result [OF blk]
        show ?thesis
        proof (cases "Booking_findByIdAndUpdate i upd st1")
          case (Inl e)
          with found guard False blk res show ?thesis by (simp add: updateBooking_def)
        next
          case upd: (Inr r)
          obtain b st2 where r: "r = (b, st2)" by (cases r)
          from upd r have u: "Booking_findByIdAndUpdate i upd st1 = Inr (b, st2)" by simp
          note fu = Booking_findByIdAndUpdate_result [OF u]
          from found guard False blk u
          have snd: "snd (updateBooking usr i body now st) = st2"
            by (simp add: updateBooking_def)
          have nocancel: "up_status upd = None \<or>
             (\<exists>s. up_status upd = Some s \<and> s \<in> set (validTransitions (b_status booking)) \<and>
                  s \<noteq> ''cancelled'')"
          proof (cases "up_status upd")
            case None
            then show ?thesis by simp
          next
            case (Some s)
            with res have s: "s \<in> set (validTransitions (b_status booking))"
              and c: "s = ''cancelled'' \<longrightarrow> up_cancelledBy upd = Some ''admin''"
              using admin by auto
            have "s \<noteq> ''cancelled''"
            proof
              assume "s = ''cancelled''"
              with c have "up_cancelledBy upd = Some ''admin''" by simp
              then have "update_errors upd \<noteq> []" by (rule update_errors_admin_cancel)
              with fu show False by simp
            qed
            with Some s show ?thesis by simp
          qed
          have b: "bookings st2 = updateOne (\<lambda>b. b_id b = i) (applyUpdate upd) (bookings st)"
            using fu res by simp
          have o: "offers st2 = offers st" using fu res by simp
          have "\<exists>booking upd.
              findById b_id i (bookings st) = Some booking \<and>
              (up_status upd = None \<or>
               (\<exists>s. up_status upd = Some s \<and> s \<in> set (validTransitions (b_status booking)) \<and>
                    s \<noteq> ''cancelled'')) \<and>
              bookings st2 = updateOne (\<lambda>b. b_id b = i) (applyUpdate upd) (bookings st)"
            by (rule exI [of _ booking], rule exI [of _ upd]) (use found nocancel b in simp)
          with o show ?thesis unfolding snd by (intro conjI disjI2)
        qed
      qed
    qed
  qed
qed

lemma updateBooking_offers_unchanged:
  "offers (snd (updateBooking usr i body now st)) = offers st"
  using updateBooking_bookings [of usr i body now st] by (rule conjunct2)

lemma list_all2_same: "(\<And>x. R x x) \<Longrightarrow> list_all2 R xs xs"
  by (simp add: list_all2_conv_all_nth)

lemma list_all2_updateOne_find:
  assumes "find P xs = Some b" and "R b (f b)" and "\<And>x. R x x"
  shows "list_all2 R xs (updateOne P f xs)"
  using assms(1)
proof (induction xs)
  case Nil
  then show ?case by simp
next
  case (Cons x xs)
  show ?case
  proof (cases "P x")
    case True
    with Cons.prems have "x = b" by simp
    with True assms(2,3) show ?thesis by (simp add: list_all2_same)
  next
    case False
    with Cons show ?thesis by (simp add: assms(3))
  qed
qed

lemma find_Some_set: "find P xs = Some b \<Longrightarrow> b \<in> set xs \<and> P b"
  by (induction xs) (auto split: if_splits)

lemma validTransitions_allowed:
  assumes "s \<in> set (validTransitions old)" and "s \<noteq> ''cancelled''"
  shows "(old = pending \<and> s = ''confirmed'') \<or> (old = confirmed \<and> s = ''completed'')"
  using assms by (cases old) (auto simp: validTransitions_def)

text \<open>
  Every booking keeps its id, and its status either stays or goes from pending to
  confirmed or from confirmed to completed.
\<close>

lemma updateBooking_status_change:
  "list_all2 (\<lambda>b b'. b_id b' = b_id b \<and>
       (b_status b' = b_status b \<or>
        (b_status b = pending \<and> b_status b' = confirmed) \<or>
        (b_status b = confirmed \<and> b_status b' = completed)))
     (bookings st) (bookings (snd (updateBooking usr i body now st)))"
  (is "list_all2 ?R _ _")
proof -
  have refl: "?R x x" for x by simp
  from updateBooking_bookings [of usr i body now st]
  have "bookings (snd (updateBooking usr i body now st)) = bookings st \<or>
    (\<exists>booking upd.
      findById b_id i (bookings st) = Some booking \<and>
      (up_status upd = None \<or>
       (\<exists>s. up_status upd = Some s \<and> s \<in> set (validTransitions (b_status booking)) \<and>
            s \<noteq> ''cancelled'')) \<and>
      bookings (snd (updateBooking usr i body now st)) =
        updateOne (\<lambda>b. b_id b = i) (applyUpdate upd) (bookings st))"
    by (rule conjunct1)
  then show ?thesis
  proof
    assume "bookings (snd (updateBooking usr i body now st)) = bookings st"
    then show ?thesis by (simp add: list_all2_same)
  next
    assume "\<exists>booking upd.
      findById b_id i (bookings st) = Some booking \<and>
      (up_status upd = None \<or>
       (\<exists>s. up_status upd = Some s \<and> s \<in> set (validTransitions (b_status booking)) \<and>
            s \<noteq> ''cancelled'')) \<and>
      bookings (snd (updateBooking usr i body now st)) =
        updateOne (\<lambda>b. b_id b = i) (applyUpdate upd) (bookings st)"
    then obtain booking upd where
      found: "find (\<lambda>b. b_id b = i) (bookings st) = Some booking"
      and valid: "up_status upd = None \<or>
         (\<exists>s. up_status upd = Some s \<and> s \<in> set (validTransitions (b_status booking)) \<and>
              s \<noteq> ''cancelled'')"
      and eq: "bookings (snd (updateBooking usr i body now st)) =
        updateOne (\<lambda>b. b_id b = i) (applyUpdate upd) (bookings st)"
      unfolding findById_def by blast
    have "?R booking (applyUpdate upd booking)"
    proof (cases "up_status upd")
      case None
      then show ?thesis by (simp add: applyUpdate_def)
    next
      case (Some s)
      with valid have "s \<in> set (validTransitions (b_status booking))" "s \<noteq> ''cancelled''"
        by simp_all
      from validTransitions_allowed [OF this] Some show ?thesis
        by (auto simp: applyUpdate_def status_of_string_def)
    qed
    then show ?thesis unfolding eq
      by (intro list_all2_updateOne_find [OF found]) simp_all
  qed
qed

lemma updateBooking_never_cancels:
  "list_all2 (\<lambda>b b'. b_id b' = b_id b \<and> (b_status b' = cancelled) = (b_status b = cancelled))
     (bookings st) (bookings (snd (updateBooking usr i body now st)))"
  by (rule list_all2_mono [OF updateBooking_status_change]) auto



subsection \<open>Status transitions\<close>










subsection \<open>The outcomes of \<open>addBooking\<close>\<close>

lemma bookings_pre_save [simp]: "bookings (booking_pre_save n m doc st) = bookings st"
  by (simp add: booking_pre_save_def Let_def)

lemma bookings_getAverageRating [simp]: "bookings (Offer_getAverageRating i st) = bookings st"
  by (simp add: Offer_getAverageRating_def Let_def)

lemma bookings_post_save [simp]: "bookings (booking_post_save doc st) = bookings st"
  by (simp add: booking_post_save_def)








subsection \<open>Deleting an offer\<close>

lemma list_all2_map_self: "(\<And>x. R x (f x)) \<Longrightarrow> list_all2 R xs (map f xs)"
  by (simp add: list_all2_map2 list_all2_same)

text \<open>
  C9. When \<open>deleteOffer\<close> succeeds, the offer existed and the controller has made two
  writes. After the first, every booking of the offer that was pending or confirmed is
  marked cancelled, with \<open>cancelledBy\<close> set to \<open>admin\<close> for an admin and to \<open>seller\<close>
  otherwise and with the cancellation reason, while every other booking and every offer
  is as before. After the second, the bookings that reference the offer are removed, and
  the offer with them: no booking of the offer remains, the bookings of other offers are
  all still there, and the offer is gone.
\<close>

theorem deleteOffer_cascade:
  assumes "deleteOffer usr i st = (Inr code, trace)"
  shows "\<exists>offer mid final.
     findById o_id i (offers st) = Some offer \<and> code = 200 \<and> trace = [mid, final] \<and>
     list_all2 (\<lambda>b b'.
         if b_offer b = i \<and> (b_status b = pending \<or> b_status b = confirmed)
         then b' = b\<lparr>b_status := cancelled,
                      b_cancelledBy := Some (if u_role usr = ''admin'' then ''admin'' else ''seller''),
                      b_cancellationReason := Some ''Offer was deleted by the seller''\<rparr>
         else b' = b)
       (bookings st) (bookings mid) \<and>
     offers mid = offers st \<and>
     bookings final = filter (\<lambda>b. b_offer b \<noteq> i) (bookings mid) \<and>
     offers final = filter (\<lambda>x. o_id x \<noteq> i) (offers st) \<and>
     (\<forall>b\<in>set (bookings final). b_offer b \<noteq> i) \<and>
     (\<forall>b\<in>set (bookings st). b_offer b \<noteq> i \<longrightarrow> b \<in> set (bookings final)) \<and>
     findById o_id i (offers final) = None"
proof -
  from assms obtain offer where offer: "findById o_id i (offers st) = Some offer"
    by (auto simp: deleteOffer_def split: option.splits)
  then have ident: "o_id offer = i"
    by (auto simp: findById_def dest: find_Some_set)
  define f :: "booking \<Rightarrow> booking" where "f = (\<lambda>b. if b_offer b = o_id offer \<and> b_status b \<in> set [pending, confirmed]
               then b\<lparr>b_status := cancelled,
                      b_cancelledBy := Some (if u_role usr = ''admin'' then ''admin'' else ''seller''),
                      b_cancellationReason := Some ''Offer was deleted by the seller''\<rparr>
               else b)"
  define mid where "mid = st\<lparr>bookings := map f (bookings st)\<rparr>"
  define final where "final = Offer_remove offer mid"
  have um: "updateMany
                         (\<lambda>b. b_offer b = o_id offer \<and> b_status b \<in> set [pending, confirmed])
                         (\<lambda>b. b\<lparr>b_status := cancelled,
                                b_cancelledBy :=
                                  Some (if u_role usr = ''admin'' then ''admin'' else ''seller''),
                                b_cancellationReason := Some ''Offer was deleted by the seller''\<rparr>)
                         (bookings st) = map f (bookings st)"
    unfolding updateMany_def f_def by (rule refl)
  from assms have "(if o_seller offer \<noteq> u_id usr \<and> u_role usr \<noteq> ''admin''
          then (Inl (ErrorResponse ''User is not authorized to delete this offer'' 401), [])
          else (Inr 200, [mid, final])) = (Inr code, trace)"
    unfolding deleteOffer_def offer option.case Let_def um mid_def final_def by (rule subst) (rule refl)
  then have code: "code = 200" and trace: "trace = [mid, final]"
    by (simp_all split: if_splits)
  have bm: "bookings mid = map f (bookings st)" and om: "offers mid = offers st"
    by (simp_all add: mid_def)
  have mark: "list_all2 (\<lambda>b b'.
         if b_offer b = i \<and> (b_status b = pending \<or> b_status b = confirmed)
         then b' = b\<lparr>b_status := cancelled,
                      b_cancelledBy := Some (if u_role usr = ''admin'' then ''admin'' else ''seller''),
                      b_cancellationReason := Some ''Offer was deleted by the seller''\<rparr>
         else b' = b)
       (bookings st) (bookings mid)"
    unfolding bm by (rule list_all2_map_self) (auto simp: ident f_def)
  have del: "bookings final = filter (\<lambda>b. b_offer b \<noteq> i) (bookings mid)"
    unfolding final_def by (simp add: Offer_remove_def deleteMany_def Let_def ident)
  have offs: "offers final = filter (\<lambda>x. o_id x \<noteq> i) (offers st)"
    unfolding final_def by (simp add: Offer_remove_def deleteMany_def Let_def ident om)
  have none: "\<forall>b\<in>set (bookings final). b_offer b \<noteq> i"
    unfolding del by simp
  have keep: "\<forall>b\<in>set (bookings st). b_offer b \<noteq> i \<longrightarrow> b \<in> set (bookings final)"
    unfolding del bm by (auto simp: ident image_iff f_def)
  have gone: "findById o_id i (offers final) = None"
    unfolding offs by (simp add: findById_def find_None_iff)
  show ?thesis
  proof (rule exI [of _ offer], rule exI [of _ mid], rule exI [of _ final], intro conjI)
  qed (fact offer code trace mark om del offs none keep gone)+
qed

text \<open>
  The seller deletes offer 10 of \<open>db1\<close>: booking 30, which is pending, is cancelled by
  the first write and removed by the second.
\<close>

theorem deleteOffer_cascade_witness:
  "deleteOffer seller1 10 db1 =
     (Inr 200,
      [db1\<lparr>bookings := [booking1\<lparr>b_status := cancelled, b_cancelledBy := Some ''seller'',
                b_cancellationReason := Some ''Offer was deleted by the seller''\<rparr>]\<rparr>,
       db1\<lparr>offers := [], bookings := []\<rparr>]) \<and>
   findById o_id 10 (offers db1) = Some offer1 \<and>
   bookings db1 = [booking1] \<and> b_offer booking1 = 10 \<and> b_status booking1 = pending"
proof -
  have r: "deleteOffer seller1 10 db1 =
     (Inr 200,
      [db1\<lparr>bookings := [booking1\<lparr>b_status := cancelled, b_cancelledBy := Some ''seller'',
                b_cancellationReason := Some ''Offer was deleted by the seller''\<rparr>]\<rparr>,
       db1\<lparr>offers := [], bookings := []\<rparr>])"
    by (simp add: offer_defs updateMany_def example_defs)
  have e: "findById o_id 10 (offers db1) = Some offer1 \<and>
     bookings db1 = [booking1] \<and> b_offer booking1 = 10 \<and> b_status booking1 = pending"
    by (simp add: findById_def example_defs)
  from deleteOffer_cascade [OF r] have "\<exists>offer. findById o_id 10 (offers db1) = Some offer"
    by (elim exE conjE) (rule exI)
  with r e show ?thesis by (simp only:)
qed

subsection \<open>Ratings after a review is deleted\<close>

text \<open>
  The helper of the review controller never changes the database: no review is
  approved, the rating it assigns is 0, and the document does not pass validation.
\<close>

lemma calculateAverageRating_unchanged: "calculateAverageRating i type st = st"
proof (cases type)
  case type_store
  show ?thesis
  proof (cases "findById s_id i (stores st)")
    case None
    with type_store show ?thesis by (simp add: calculateAverageRating_def)
  next
    case (Some obj)
    have "store_errors (obj\<lparr>s_rating := Some 0\<rparr>) \<noteq> []"
      by (simp add: store_errors_def rating_errors_def)
    with type_store Some show ?thesis
      by (simp add: calculateAverageRating_def isApproved_def Let_def)
  qed
next
  case type_offer
  show ?thesis
  proof (cases "findById o_id i (offers st)")
    case None
    with type_offer show ?thesis by (simp add: calculateAverageRating_def)
  next
    case (Some obj)
    have "offer_errors (obj\<lparr>o_rating := Some 0\<rparr>) \<noteq> []"
      by (simp add: offer_errors_def)
    with type_offer Some show ?thesis
      by (simp add: calculateAverageRating_def isApproved_def Let_def)
  qed
qed

lemma deleteReview_stores_offers:
  "stores (snd (deleteReview usr i st)) = stores st \<and>
   offers (snd (deleteReview usr i st)) = offers st"
proof (cases "findById rv_id i (reviews st)")
  case None
  then show ?thesis by (simp add: deleteReview_def)
next
  case (Some review)
  show ?thesis
  proof (cases "toStringPopulated (users st) (rv_user review)")
    case (Inl e)
    with Some show ?thesis by (simp add: deleteReview_def)
  next
    case (Inr s)
    with Some show ?thesis
      by (simp add: deleteReview_def Let_def calculateAverageRating_unchanged)
  qed
qed

text \<open>
  C7, the failing input. Store 20 has the reviews 40 (rating 5) and 41 (rating 3) and
  the stored rating 4, their mean. An admin deletes review 41: the review is removed
  and answered with 200, and the store keeps the rating 4, while the mean of the
  remaining reviews is 5 (which is what \<open>calcAverageRatings\<close> of the Review model
  would store); offer 10 keeps having no rating. The author of the review, buyer 3, is
  refused with 401.
\<close>

theorem deleteReview_keeps_rating:
  "deleteReview admin9 41 db1 = (Inr 200, db1\<lparr>reviews := [review1]\<rparr>) \<and>
   deleteReview buyer3 41 db1 =
     (Inl (ErrorResponse ''User is not authorized to delete this review'' 401), db1) \<and>
   reviews db1 = [review1, review2] \<and> rv_id review2 = 41 \<and> rv_user review2 = u_id buyer3 \<and>
   rv_store review1 = 20 \<and> rv_store review2 = 20 \<and>
   rv_offer review1 = 10 \<and> rv_offer review2 = 10 \<and>
   rv_rating review1 = 5 \<and> rv_rating review2 = 3 \<and>
   stores db1 = [store1] \<and> s_id store1 = 20 \<and> s_rating store1 = Some 4 \<and>
   offers db1 = [offer1] \<and> o_id offer1 = 10 \<and> o_rating offer1 = None \<and>
   stores (calcAverageRatings 20 db1) = [store1] \<and>
   stores (calcAverageRatings 20 (db1\<lparr>reviews := [review1]\<rparr>)) =
     [store1\<lparr>s_rating := Some 5\<rparr>]"
  by (simp add: deleteReview_def calculateAverageRating_def calcAverageRatings_def
      isApproved_def store_errors_def offer_errors_def rating_errors_def avg_def
      deleteMany_def findById_def toStringPopulated_def populated_def reqUserId_def
      Let_def example_defs)

theorem deleteReview_keeps_rating_witness:
  "map s_rating (stores (snd (deleteReview admin9 41 db1))) = [Some 4] \<and>
   map rv_rating (reviews (snd (deleteReview admin9 41 db1))) = [5]"
  using deleteReview_keeps_rating by (simp add: example_defs)

end
